theory Spec2Isabelle
  imports Main "HOL-Library.Sublist"
begin

section \<open>DataLoader: data model\<close>

text \<open>
  The failures a fetch can reject with. The source tests \<^verbatim>\<open>instanceof NotFoundError\<close>
  and \<^verbatim>\<open>instanceof OfflineError\<close>; every other failure is \<open>OtherError\<close>.
\<close>

datatype fetch_error = NotFoundError | OfflineError | OtherError string

record Document =
  doc_id :: string
  doc_title :: string
  doc_url :: string
  doc_updatedAt :: string

type_synonym Revision = string

type_synonym NavigationNode = string

text \<open>What \<^verbatim>\<open>documents.fetch\<close> resolves with.\<close>

record response =
  resp_document :: Document
  resp_sharedTree :: "NavigationNode option"

text \<open>\<^verbatim>\<open>props.match.params\<close>; an absent route parameter is \<open>None\<close>.\<close>

record params =
  shareId :: "string option"
  documentSlug :: string
  revisionId :: "string option"

record Props =
  match_params :: params
  match_path :: string
  match_url :: string
  location_pathname :: string

text \<open>The capability set \<^verbatim>\<open>policies.abilities(id)\<close>; a missing flag is falsy.\<close>

record abilities =
  can_read :: bool
  can_update :: bool

datatype nav_op = Push string | Replace string

text \<open>
  The collaborators the component receives through its props (the stores) and the imported
  helpers whose source is not part of the component (\<^verbatim>\<open>updateDocumentUrl\<close>,
  \<^verbatim>\<open>matchDocumentEdit\<close>, \<^verbatim>\<open>isInternalUrl\<close>, \<^verbatim>\<open>parseDocumentSlug\<close>, lodash's
  \<^verbatim>\<open>deburr\<close>, \<^verbatim>\<open>String.prototype.toLowerCase\<close>, and date-fns'
  \<^verbatim>\<open>formatDistanceToNow(Date.parse(_), {addSuffix: true})\<close>) are parameters. A fetch is
  given by what its promise settles with: \<open>Inl\<close> a rejection, \<open>Inr\<close> the value.
\<close>

record stores =
  documents_getByUrl :: "string \<Rightarrow> Document option"
  documents_fetch :: "string \<Rightarrow> string option \<Rightarrow> fetch_error + response"
  documents_searchTitles :: "string \<Rightarrow> fetch_error + Document list"
  revisions_fetch :: "string option \<Rightarrow> fetch_error + Revision"
  policies_get :: "string \<Rightarrow> abilities option"
  policies_abilities :: "string \<Rightarrow> abilities"
  shares_fetch :: "string \<Rightarrow> fetch_error + unit"
  auth_user_id :: "string option"
  updateDocumentUrl :: "string \<Rightarrow> Document \<Rightarrow> string"
  matchDocumentEdit :: string
  isInternalUrl :: "string \<Rightarrow> bool"
  parseDocumentSlug :: "string \<Rightarrow> string"
  deburr :: "string \<Rightarrow> string"
  toLowerCase :: "string \<Rightarrow> string"
  formatDistanceToNow :: "string \<Rightarrow> string"

text \<open>
  The component's own fields (\<^verbatim>\<open>sharedTree\<close>, \<^verbatim>\<open>document\<close>, \<^verbatim>\<open>revision\<close>,
  \<^verbatim>\<open>error\<close>), the module-level \<^verbatim>\<open>sharedTreeCache\<close>, and what the component has done to
  its collaborators: the document last passed to \<^verbatim>\<open>ui.setActiveDocument\<close>, the calls made
  on \<^verbatim>\<open>history\<close> in order, and the rejections of promises nobody awaits.
\<close>

record loader =
  sharedTree :: "NavigationNode option"
  document :: "Document option"
  revision :: "Revision option"
  error :: "fetch_error option"
  sharedTreeCache :: "string \<rightharpoonup> NavigationNode option"
  ui_activeDocument :: "Document option"
  history :: "nav_op list"
  unhandled :: "fetch_error list"

section \<open>DataLoader: loadDocument\<close>

text \<open>JavaScript truthiness of an optional string: present and not empty.\<close>

definition truthy :: "string option \<Rightarrow> bool" where
  "truthy v = (case v of None \<Rightarrow> False | Some s \<Rightarrow> s \<noteq> [])"

text \<open>\<^verbatim>\<open>get isEditing() { return this.props.match.path === matchDocumentEdit; }\<close>\<close>

definition isEditing :: "stores \<Rightarrow> Props \<Rightarrow> bool" where
  "isEditing env p = (match_path p = matchDocumentEdit env)"

text \<open>\<^verbatim>\<open>revisionId && revisionId !== "latest"\<close>\<close>

definition wantsRevision :: "params \<Rightarrow> bool" where
  "wantsRevision ps = (truthy (revisionId ps) \<and> revisionId ps \<noteq> Some ''latest'')"

text \<open>
  Lines 164--167, the part of \<^verbatim>\<open>loadDocument\<close> before the first \<^verbatim>\<open>await\<close>: a document
  already held is made the active one.
\<close>

definition loadDocument_start :: "loader \<Rightarrow> loader" where
  "loadDocument_start s =
     (case document s of None \<Rightarrow> s | Some d \<Rightarrow> s\<lparr>ui_activeDocument := Some d\<rparr>)"

text \<open>Lines 174--176, run when \<^verbatim>\<open>documents.fetch\<close> has resolved with \<open>r\<close>.\<close>

definition storeResponse :: "response \<Rightarrow> loader \<Rightarrow> loader" where
  "storeResponse r s =
     s\<lparr>sharedTree := resp_sharedTree r,
       document := Some (resp_document r),
       sharedTreeCache := (sharedTreeCache s)(doc_id (resp_document r) \<mapsto> resp_sharedTree r)\<rparr>"

text \<open>Lines 183--186: the \<^verbatim>\<open>catch\<close> of the \<^verbatim>\<open>try\<close> block.\<close>

definition catchError :: "fetch_error \<Rightarrow> loader \<Rightarrow> loader" where
  "catchError e s = s\<lparr>error := Some e\<rparr>"

text \<open>
  Lines 206--212. The promise of \<^verbatim>\<open>shares.fetch\<close> is neither awaited nor returned. Its
  \<^verbatim>\<open>catch\<close> handler returns normally for a \<open>NotFoundError\<close> and throws every other
  failure again, which rejects the detached promise: an unhandled rejection.
\<close>

definition fetchShares :: "stores \<Rightarrow> Document \<Rightarrow> loader \<Rightarrow> loader" where
  "fetchShares env d s =
     (case shares_fetch env (doc_id d) of
        Inr _ \<Rightarrow> s
      | Inl e \<Rightarrow> if e = NotFoundError then s else s\<lparr>unhandled := unhandled s @ [e]\<rparr>)"

text \<open>\<^verbatim>\<open>this.props.location.pathname.match(/move$/)\<close>\<close>

definition isMove :: "Props \<Rightarrow> bool" where
  "isMove p = suffix ''move'' (location_pathname p)"

text \<open>
  Lines 188--222, the part of \<^verbatim>\<open>loadDocument\<close> after the \<^verbatim>\<open>try\<close> block. \<open>ps\<close> are the
  route parameters read at line 162 when the call began; \<open>p\<close> are the props of the
  component when this part runs.
\<close>

definition loadDocument_finish :: "stores \<Rightarrow> params \<Rightarrow> Props \<Rightarrow> loader \<Rightarrow> loader" where
  "loadDocument_finish env ps p s =
     (case document s of
        None \<Rightarrow> s
      | Some d \<Rightarrow>
          let can = policies_abilities env (doc_id d);
              s1 = s\<lparr>ui_activeDocument := Some d\<rparr>
          in if \<not> can_update can \<and> isEditing env p
             then s1\<lparr>history := history s1 @ [Push (doc_url d)]\<rparr>
             else
               let s2 = (if can_read can then fetchShares env d s1 else s1);
                   canRedirect = (\<not> truthy (revisionId ps) \<and> \<not> isMove p \<and> \<not> truthy (shareId ps))
               in if canRedirect
                  then (let canonicalUrl = updateDocumentUrl env (match_url p) d
                        in if location_pathname p \<noteq> canonicalUrl
                           then s2\<lparr>history := history s2 @ [Replace canonicalUrl]\<rparr>
                           else s2)
                  else s2)"

text \<open>
  One call of \<^verbatim>\<open>loadDocument\<close> whose awaits settle before anything else happens to the
  component: the props are the same throughout. \<^verbatim>\<open>loadRevision\<close> (lines 156--159) reads
  the revision id from the props again and stores what \<^verbatim>\<open>revisions.fetch\<close> resolves with;
  its rejection is caught by the \<^verbatim>\<open>try\<close> of \<^verbatim>\<open>loadDocument\<close>.
\<close>

definition loadDocument :: "stores \<Rightarrow> Props \<Rightarrow> loader \<Rightarrow> loader" where
  "loadDocument env p s =
     (let ps = match_params p;
          s0 = loadDocument_start s
      in case documents_fetch env (documentSlug ps) (shareId ps) of
           Inl e \<Rightarrow> catchError e s0
         | Inr r \<Rightarrow>
             let s1 = storeResponse r s0
             in if wantsRevision ps
                then (case revisions_fetch env (revisionId (match_params p)) of
                        Inl e \<Rightarrow> catchError e s1
                      | Inr rv \<Rightarrow> loadDocument_finish env ps p (s1\<lparr>revision := Some rv\<rparr>))
                else loadDocument_finish env ps p (s1\<lparr>revision := None\<rparr>))"

section \<open>DataLoader: overlapping calls\<close>

text \<open>
  \<^verbatim>\<open>loadDocument\<close> and \<^verbatim>\<open>loadRevision\<close> are \<^verbatim>\<open>async\<close>: a call runs to its first
  \<^verbatim>\<open>await\<close> and the rest runs when the awaited promise settles, after whatever happened to
  the component meanwhile. A suspended call is kept with the constants it has already
  bound (line 162): a \<^verbatim>\<open>loadDocument\<close> waiting for \<^verbatim>\<open>documents.fetch\<close>, a
  \<^verbatim>\<open>loadDocument\<close> waiting for its \<^verbatim>\<open>loadRevision\<close>, or a \<^verbatim>\<open>loadRevision\<close> that
  \<^verbatim>\<open>componentDidUpdate\<close> started and did not await.
\<close>

datatype pending =
    AwaitDocument params
  | AwaitRevision params
  | AwaitRevisionAlone

datatype settled =
    Rejected fetch_error
  | GotDocument response
  | GotRevision Revision

text \<open>
  A component instance over time: the props React last gave it, its fields and effects,
  its suspended calls in the order they were made, and whether React has it mounted. The
  class never reads the last.
\<close>

record component =
  props :: Props
  self :: loader
  inflight :: "pending list"
  mounted :: bool

text \<open>A call \<^verbatim>\<open>this.loadDocument()\<close>, up to its \<^verbatim>\<open>await\<close> at line 170.\<close>

definition callLoadDocument :: "component \<Rightarrow> component" where
  "callLoadDocument c =
     c\<lparr>self := loadDocument_start (self c),
       inflight := inflight c @ [AwaitDocument (match_params (props c))]\<rparr>"

text \<open>A call \<^verbatim>\<open>this.loadRevision()\<close> from \<^verbatim>\<open>componentDidUpdate\<close>, up to its \<^verbatim>\<open>await\<close>.\<close>

definition callLoadRevision :: "component \<Rightarrow> component" where
  "callLoadRevision c = c\<lparr>inflight := inflight c @ [AwaitRevisionAlone]\<rparr>"

text \<open>Lines 50--57. The fields of a new instance are all undefined.\<close>

definition componentDidMount :: "stores \<Rightarrow> Props \<Rightarrow> (string \<rightharpoonup> NavigationNode option) \<Rightarrow> component" where
  "componentDidMount env p cache =
     (let doc = documents_getByUrl env (documentSlug (match_params p));
          tree = (case doc of
                    None \<Rightarrow> None
                  | Some d \<Rightarrow> (case cache (doc_id d) of None \<Rightarrow> None | Some t \<Rightarrow> t))
      in callLoadDocument
           \<lparr>props = p,
            self = \<lparr>sharedTree = tree, document = doc, revision = None, error = None,
                      sharedTreeCache = cache, ui_activeDocument = None, history = [],
                      unhandled = []\<rparr>,
            inflight = [],
            mounted = True\<rparr>)"

text \<open>
  Lines 59--86, run by React after the component has received new props: \<open>prevProps\<close> are
  the props before, \<open>props c\<close> the props now.
\<close>

definition componentDidUpdate :: "stores \<Rightarrow> Props \<Rightarrow> component \<Rightarrow> component" where
  "componentDidUpdate env prevProps c =
     (let c1 = (case document (self c) of
                  None \<Rightarrow> c
                | Some d \<Rightarrow>
                    if policies_get env (doc_id d) = None \<and> error (self c) = None
                       \<and> truthy (auth_user_id env)
                    then callLoadDocument c
                    else c);
          rid = revisionId (match_params (props c1))
      in if revisionId (match_params prevProps) \<noteq> rid \<and> truthy rid \<and> rid \<noteq> Some ''latest''
         then callLoadRevision c1
         else c1)"

text \<open>React passes new props to the mounted component and then runs \<^verbatim>\<open>componentDidUpdate\<close>.\<close>

definition receiveProps :: "stores \<Rightarrow> Props \<Rightarrow> component \<Rightarrow> component" where
  "receiveProps env p c = componentDidUpdate env (props c) (c\<lparr>props := p\<rparr>)"

text \<open>
  React unmounts the component. The class defines no \<^verbatim>\<open>componentWillUnmount\<close>: nothing
  of the component runs, its fields and its suspended calls stay as they are.
\<close>

definition unmount :: "component \<Rightarrow> component" where
  "unmount c = c\<lparr>mounted := False\<rparr>"

text \<open>
  The rest of a suspended call, run when its promise has settled. \<open>None\<close> when the
  settlement is not one the awaited promise can have.
\<close>

fun resume :: "stores \<Rightarrow> pending \<Rightarrow> settled \<Rightarrow> component \<Rightarrow> component option" where
  "resume env (AwaitDocument ps) (Rejected e) c =
     Some (c\<lparr>self := catchError e (self c)\<rparr>)"
| "resume env (AwaitDocument ps) (GotDocument r) c =
     (let s1 = storeResponse r (self c)
      in if wantsRevision ps
         then Some (c\<lparr>self := s1, inflight := inflight c @ [AwaitRevision ps]\<rparr>)
         else Some (c\<lparr>self := loadDocument_finish env ps (props c) (s1\<lparr>revision := None\<rparr>)\<rparr>))"
| "resume env (AwaitRevision ps) (Rejected e) c =
     Some (c\<lparr>self := catchError e (self c)\<rparr>)"
| "resume env (AwaitRevision ps) (GotRevision rv) c =
     Some (c\<lparr>self := loadDocument_finish env ps (props c) ((self c)\<lparr>revision := Some rv\<rparr>)\<rparr>)"
| "resume env AwaitRevisionAlone (Rejected e) c =
     Some (c\<lparr>self := (self c)\<lparr>unhandled := unhandled (self c) @ [e]\<rparr>\<rparr>)"
| "resume env AwaitRevisionAlone (GotRevision rv) c =
     Some (c\<lparr>self := (self c)\<lparr>revision := Some rv\<rparr>\<rparr>)"
| "resume env _ _ c = None"

text \<open>The promise of the \<open>i\<close>-th suspended call settles.\<close>

definition settle :: "stores \<Rightarrow> nat \<Rightarrow> settled \<Rightarrow> component \<Rightarrow> component option" where
  "settle env i r c =
     (if i < length (inflight c)
      then resume env (inflight c ! i) r
             (c\<lparr>inflight := take i (inflight c) @ drop (Suc i) (inflight c)\<rparr>)
      else None)"

section \<open>DataLoader: onSearchLink\<close>

record search_result =
  sr_title :: string
  sr_subtitle :: string
  sr_url :: string

text \<open>The object built at lines 104--110 and again at lines 127--131.\<close>

definition toResult :: "stores \<Rightarrow> Document \<Rightarrow> search_result" where
  "toResult env d =
     \<lparr>sr_title = doc_title d,
      sr_subtitle = ''Updated '' @ formatDistanceToNow env (doc_updatedAt d),
      sr_url = doc_url d\<rparr>"

text \<open>
  \<^verbatim>\<open>deburr(document.title).toLowerCase().startsWith(deburr(term).toLowerCase())\<close>
\<close>

definition titleStartsWith :: "stores \<Rightarrow> string \<Rightarrow> search_result \<Rightarrow> bool" where
  "titleStartsWith env term r =
     prefix (toLowerCase env (deburr env term)) (toLowerCase env (deburr env (sr_title r)))"

text \<open>The iteratee of lines 133--138.\<close>

definition rank :: "stores \<Rightarrow> string \<Rightarrow> search_result \<Rightarrow> int" where
  "rank env term r = (if titleStartsWith env term r then - 1 else 1)"

text \<open>
  lodash's \<^verbatim>\<open>sortBy(collection, iteratee)\<close>: a stable sort in ascending order of the
  iteratee's values, here the stable insertion sort of the library.
\<close>

definition sortBy :: "('a \<Rightarrow> int) \<Rightarrow> 'a list \<Rightarrow> 'a list" where
  "sortBy f xs = sort_key f xs"

text \<open>
  Lines 93--117: the lookup of an exact internal document. \<open>Some\<close> is what
  \<^verbatim>\<open>onSearchLink\<close> settles with there (a \<^verbatim>\<open>return\<close> or a \<^verbatim>\<open>throw\<close>), \<open>None\<close> is
  falling through to line 120.
\<close>

definition exactLookup :: "stores \<Rightarrow> string \<Rightarrow> (fetch_error + search_result list) option" where
  "exactLookup env term =
     (if isInternalUrl env term
      then (case documents_fetch env (parseDocumentSlug env term) None of
              Inr r \<Rightarrow> Some (Inr [toResult env (resp_document r)])
            | Inl e \<Rightarrow> if e \<noteq> NotFoundError then Some (Inl e) else None)
      else None)"

definition onSearchLink :: "stores \<Rightarrow> string \<Rightarrow> fetch_error + search_result list" where
  "onSearchLink env term =
     (case exactLookup env term of
        Some out \<Rightarrow> out
      | None \<Rightarrow>
          (case documents_searchTitles env term of
             Inl e \<Rightarrow> Inl e
           | Inr results \<Rightarrow> Inr (sortBy (rank env term) (map (toResult env) results))))"

section \<open>CollectionLink\<close>

record Collection =
  col_id :: string
  col_index :: string
  col_permission :: "string option"

text \<open>
  The dragged item: \<^verbatim>\<open>{ id, collectionId }\<close> for a document, \<^verbatim>\<open>{ id }\<close> for a collection
  (line 150), where \<^verbatim>\<open>collectionId\<close> is undefined.
\<close>

record drag_item =
  item_id :: string
  item_collectionId :: "string option"

record link_props =
  collection :: Collection
  belowCollection :: "Collection option"
  isDraggingAnyCollection :: bool
  search :: string

text \<open>
  What \<^verbatim>\<open>useStores()\<close> gives, as far as the component reads it, and the imported
  \<^verbatim>\<open>fractionalIndex\<close> of the package fractional-index, a parameter.
\<close>

record link_stores =
  ui_activeCollectionId :: "string option"
  collections_get :: "string \<Rightarrow> Collection option"
  abilities_update :: "string \<Rightarrow> bool"
  fractionalIndex :: "string option \<Rightarrow> string option \<Rightarrow> string"

text \<open>
  The calls the component makes on the stores: \<^verbatim>\<open>documents.move(id, collectionId,
  parentDocumentId, index)\<close> with the index it passes, if any, and
  \<^verbatim>\<open>collections.move(id, index)\<close>.
\<close>

datatype store_call =
    DocumentsMove string string "nat option"
  | CollectionsMove string string

text \<open>
  The state of one \<^verbatim>\<open>CollectionLink\<close>: its three hooks of state, the ref
  \<^verbatim>\<open>itemRef\<close>, and the calls it has made on the stores, in order.
\<close>

record link =
  expanded :: bool
  menuOpen :: bool
  permissionOpen :: bool
  itemRef :: "drag_item option"
  calls :: "store_call list"

text \<open>\<^verbatim>\<open>collection.id === ui.activeCollectionId\<close>\<close>

definition isActive :: "link_stores \<Rightarrow> link_props \<Rightarrow> bool" where
  "isActive st lp = (Some (col_id (collection lp)) = ui_activeCollectionId st)"

text \<open>The first render: lines 45--51 and 62--64.\<close>

definition initialLink :: "link_stores \<Rightarrow> link_props \<Rightarrow> link" where
  "initialLink st lp =
     \<lparr>expanded = isActive st lp, menuOpen = False, permissionOpen = False,
      itemRef = None, calls = []\<rparr>"

text \<open>
  The effect of lines 66--77, which React runs after the first render and after every
  render in which one of its four dependencies has changed.
\<close>

definition expandedEffect :: "link_stores \<Rightarrow> link_props \<Rightarrow> link \<Rightarrow> link" where
  "expandedEffect st lp l =
     (if search lp = ''?starred'' then l
      else if isDraggingAnyCollection lp then l\<lparr>expanded := False\<rparr>
      else l\<lparr>expanded := isActive st lp\<rparr>)"

text \<open>\<^verbatim>\<open>handlePermissionOpen\<close> and \<^verbatim>\<open>handlePermissionClose\<close> of \<^verbatim>\<open>useBoolean()\<close>.\<close>

definition handlePermissionOpen :: "link \<Rightarrow> link" where
  "handlePermissionOpen l = l\<lparr>permissionOpen := True\<rparr>"

definition handlePermissionClose :: "link \<Rightarrow> link" where
  "handlePermissionClose l = l\<lparr>permissionOpen := False\<rparr>"

text \<open>
  Lines 93--97. \<^verbatim>\<open>collections.get\<close> of an undefined id finds nothing.
\<close>

definition needsConfirmation :: "link_stores \<Rightarrow> link_props \<Rightarrow> drag_item \<Rightarrow> bool" where
  "needsConfirmation st lp item =
     (case (case item_collectionId item of None \<Rightarrow> None | Some cid \<Rightarrow> collections_get st cid) of
        None \<Rightarrow> False
      | Some prevCollection \<Rightarrow>
          col_permission prevCollection = None
          \<and> col_permission prevCollection \<noteq> col_permission (collection lp))"

text \<open>
  Lines 86--103, the \<^verbatim>\<open>drop\<close> of the target on the body of the link; \<open>didDrop\<close> is
  \<^verbatim>\<open>monitor.didDrop()\<close>, true when a nested target has handled the drop already. The
  prop \<^verbatim>\<open>collection\<close> is never null, so the guard of line 89 never returns.
\<close>

definition dropDocument :: "link_stores \<Rightarrow> link_props \<Rightarrow> bool \<Rightarrow> drag_item \<Rightarrow> link \<Rightarrow> link" where
  "dropDocument st lp didDrop item l =
     (if didDrop then l
      else if Some (col_id (collection lp)) = item_collectionId item then l
      else if needsConfirmation st lp item
           then handlePermissionOpen (l\<lparr>itemRef := Some item\<rparr>)
           else l\<lparr>calls := calls l @ [DocumentsMove (item_id item) (col_id (collection lp)) None]\<rparr>)"

text \<open>Lines 104--106.\<close>

definition canDropDocument :: "link_stores \<Rightarrow> link_props \<Rightarrow> bool" where
  "canDropDocument st lp = abilities_update st (col_id (collection lp))"

text \<open>Lines 116--119, the \<^verbatim>\<open>drop\<close> of the target on the top edge.\<close>

definition dropToReorder :: "link_props \<Rightarrow> drag_item \<Rightarrow> link \<Rightarrow> link" where
  "dropToReorder lp item l =
     l\<lparr>calls := calls l @ [DocumentsMove (item_id item) (col_id (collection lp)) (Some 0)]\<rparr>"

text \<open>Line 81.\<close>

definition belowCollectionIndex :: "link_props \<Rightarrow> string option" where
  "belowCollectionIndex lp =
     (case belowCollection lp of None \<Rightarrow> None | Some b \<Rightarrow> Some (col_index b))"

text \<open>Lines 128--133, the \<^verbatim>\<open>drop\<close> of the target between two collections.\<close>

definition dropToReorderCollection :: "link_stores \<Rightarrow> link_props \<Rightarrow> drag_item \<Rightarrow> link \<Rightarrow> link" where
  "dropToReorderCollection st lp item l =
     l\<lparr>calls := calls l @
         [CollectionsMove (item_id item)
            (fractionalIndex st (Some (col_index (collection lp))) (belowCollectionIndex lp))]\<rparr>"

text \<open>Lines 134--139.\<close>

definition canDropCollection :: "link_props \<Rightarrow> drag_item \<Rightarrow> bool" where
  "canDropCollection lp item =
     (col_id (collection lp) \<noteq> item_id item
      \<and> (case belowCollection lp of None \<Rightarrow> True | Some b \<Rightarrow> item_id item \<noteq> col_id b))"

text \<open>
  A collection is released over the target between two collections. react-dnd calls
  the \<^verbatim>\<open>drop\<close> of a target only if its \<^verbatim>\<open>canDrop\<close> has returned true; a rejected drop
  runs nothing of the component.
\<close>

definition releaseCollection :: "link_stores \<Rightarrow> link_props \<Rightarrow> drag_item \<Rightarrow> link \<Rightarrow> link" where
  "releaseCollection st lp item l =
     (if canDropCollection lp item then dropToReorderCollection st lp item l else l)"

text \<open>
  Modelled from the spec: \<^verbatim>\<open>scenes/DocumentReparent\<close>, the content of the confirmation
  modal, is not among the sources. The link passes it \<^verbatim>\<open>itemRef.current\<close> and its
  \<^verbatim>\<open>collection\<close>, and \<^verbatim>\<open>handlePermissionClose\<close> for both \<^verbatim>\<open>onSubmit\<close> and
  \<^verbatim>\<open>onCancel\<close> (lines 236--247). The spec: the resolver "performs the move only on
  explicit confirmation, or discards it on cancellation".
\<close>

definition confirmReparent :: "link_props \<Rightarrow> link \<Rightarrow> link" where
  "confirmReparent lp l =
     (case itemRef l of
        None \<Rightarrow> handlePermissionClose l
      | Some item \<Rightarrow>
          handlePermissionClose
            (l\<lparr>calls := calls l @ [DocumentsMove (item_id item) (col_id (collection lp)) None]\<rparr>))"

text \<open>
  Modelled from the spec: cancelling in \<^verbatim>\<open>scenes/DocumentReparent\<close> discards the pending
  move and calls \<^verbatim>\<open>onCancel\<close>.
\<close>

definition cancelReparent :: "link \<Rightarrow> link" where
  "cancelReparent l = handlePermissionClose l"

section \<open>Observations and example inputs\<close>

text \<open>The addresses passed to \<^verbatim>\<open>history.replace\<close> and to \<^verbatim>\<open>history.push\<close>, in order.\<close>

fun replacements :: "nav_op list \<Rightarrow> string list" where
  "replacements [] = []"
| "replacements (Replace u # ops) = u # replacements ops"
| "replacements (Push u # ops) = replacements ops"

fun pushes :: "nav_op list \<Rightarrow> string list" where
  "pushes [] = []"
| "pushes (Push u # ops) = u # pushes ops"
| "pushes (Replace u # ops) = pushes ops"

text \<open>
  Two documents and the stores of a small workspace. The signed-in user may read both
  documents and update only the second; the share information of the first does not
  exist, the fetch of the second's fails because the transport is offline.
\<close>

definition doc_a :: Document where
  "doc_a = \<lparr>doc_id = ''id-a'', doc_title = ''Doc A'', doc_url = ''/doc/doc-a-id-a'',
            doc_updatedAt = ''2021-03-01''\<rparr>"

definition doc_b :: Document where
  "doc_b = \<lparr>doc_id = ''id-b'', doc_title = ''Doc B'', doc_url = ''/doc/doc-b-id-b'',
            doc_updatedAt = ''2021-03-02''\<rparr>"

definition resp_a :: response where
  "resp_a = \<lparr>resp_document = doc_a, resp_sharedTree = None\<rparr>"

definition resp_b :: response where
  "resp_b = \<lparr>resp_document = doc_b, resp_sharedTree = Some ''tree-b''\<rparr>"

definition lower :: "char \<Rightarrow> char" where
  "lower ch = (if ch = CHR ''P'' then CHR ''p'' else if ch = CHR ''A'' then CHR ''a'' else ch)"

definition titled :: "string \<Rightarrow> Document" where
  "titled t = \<lparr>doc_id = t, doc_title = t, doc_url = ''/doc/'' @ t, doc_updatedAt = ''2021-03-03''\<rparr>"

definition demoStores :: stores where
  "demoStores =
     \<lparr>documents_getByUrl = (\<lambda>slug. if slug = ''doc-a'' then Some doc_a else None),
      documents_fetch = (\<lambda>slug share.
         if slug = ''doc-a'' then Inr resp_a
         else if slug = ''doc-b'' then Inr resp_b
         else if slug = ''doc-x'' then Inl OfflineError
         else Inl NotFoundError),
      documents_searchTitles = (\<lambda>term.
         Inr [titled ''Project Plan'', titled ''Approved Proposal'', titled ''proactive notes'']),
      revisions_fetch = (\<lambda>rid. Inl NotFoundError),
      policies_get = (\<lambda>i. None),
      policies_abilities = (\<lambda>i. \<lparr>can_read = True, can_update = (i \<noteq> ''id-a'')\<rparr>),
      shares_fetch = (\<lambda>i. if i = ''id-b'' then Inl OfflineError else Inl NotFoundError),
      auth_user_id = Some ''user-1'',
      updateDocumentUrl = (\<lambda>url d. doc_url d),
      matchDocumentEdit = ''/doc/:documentSlug/edit'',
      isInternalUrl = (\<lambda>term. prefix ''/doc/'' term),
      parseDocumentSlug = (\<lambda>term. drop 5 term),
      deburr = (\<lambda>s. s),
      toLowerCase = map lower,
      formatDistanceToNow = (\<lambda>d. ''3 days ago'')\<rparr>"

text \<open>The props of the read route, of the edit route and of the history route of a slug.\<close>

definition route :: "string \<Rightarrow> Props" where
  "route slug =
     \<lparr>match_params = \<lparr>shareId = None, documentSlug = slug, revisionId = None\<rparr>,
      match_path = ''/doc/:documentSlug'',
      match_url = ''/doc/'' @ slug,
      location_pathname = ''/doc/'' @ slug\<rparr>"

definition editRoute :: "string \<Rightarrow> Props" where
  "editRoute slug =
     \<lparr>match_params = \<lparr>shareId = None, documentSlug = slug, revisionId = None\<rparr>,
      match_path = ''/doc/:documentSlug/edit'',
      match_url = ''/doc/'' @ slug @ ''/edit'',
      location_pathname = ''/doc/'' @ slug @ ''/edit''\<rparr>"

definition historyRoute :: "string \<Rightarrow> string \<Rightarrow> Props" where
  "historyRoute slug rid =
     \<lparr>match_params = \<lparr>shareId = None, documentSlug = slug, revisionId = Some rid\<rparr>,
      match_path = ''/doc/:documentSlug/history/:revisionId?'',
      match_url = ''/doc/'' @ slug @ ''/history/'' @ rid,
      location_pathname = ''/doc/'' @ slug @ ''/history/'' @ rid\<rparr>"

definition emptyLoader :: loader where
  "emptyLoader =
     \<lparr>sharedTree = None, document = None, revision = None, error = None,
      sharedTreeCache = Map.empty, ui_activeDocument = None, history = [], unhandled = []\<rparr>"

text \<open>
  The component is mounted on the route of the first document, which the documents
  store holds without its policy, and then receives the props of the second document's
  route: two calls of \<^verbatim>\<open>loadDocument\<close> are suspended at their fetch.
\<close>

definition overlapping :: component where
  "overlapping =
     receiveProps demoStores (route ''doc-b'')
       (componentDidMount demoStores (route ''doc-a'') Map.empty)"

text \<open>
  The component is mounted on the route of the second document, which the documents
  store does not hold, and unmounted while its fetch is in flight.
\<close>

definition abandoned :: component where
  "abandoned = unmount (componentDidMount demoStores (route ''doc-b'') Map.empty)"

text \<open>
  The component is mounted on the history route of the first document with a specific
  revision. Its fetch resolves, so the call waits for the revision, and the component
  receives the props of the second document's read route. Then the fetch for the second
  document resolves, and last the revision fetch of the first request.
\<close>

definition revisionInFlight :: "component option" where
  "revisionInFlight =
     map_option (receiveProps demoStores (route ''doc-b''))
       (settle demoStores 0 (GotDocument resp_a)
          (componentDidMount demoStores (historyRoute ''doc-a'' ''rev-1'') Map.empty))"

definition laterResolved :: "component option" where
  "laterResolved = Option.bind revisionInFlight (settle demoStores 1 (GotDocument resp_b))"

definition lateRevision :: "component option" where
  "lateRevision = Option.bind laterResolved (settle demoStores 0 (GotRevision ''rev-1-object''))"

text \<open>
  Three collections: a private one (its permission is null), one that members may read
  and one that members may edit. The second is the active one.
\<close>

definition privateCollection :: Collection where
  "privateCollection = \<lparr>col_id = ''c-private'', col_index = ''a'', col_permission = None\<rparr>"

definition readCollection :: Collection where
  "readCollection = \<lparr>col_id = ''c-read'', col_index = ''m'', col_permission = Some ''read''\<rparr>"

definition writeCollection :: Collection where
  "writeCollection =
     \<lparr>col_id = ''c-write'', col_index = ''t'', col_permission = Some ''read_write''\<rparr>"

definition demoLinkStores :: link_stores where
  "demoLinkStores =
     \<lparr>ui_activeCollectionId = Some ''c-read'',
      collections_get = (\<lambda>i.
         if i = ''c-private'' then Some privateCollection
         else if i = ''c-read'' then Some readCollection
         else if i = ''c-write'' then Some writeCollection
         else None),
      abilities_update = (\<lambda>i. True),
      fractionalIndex = (\<lambda>a b. (case a of None \<Rightarrow> [] | Some k \<Rightarrow> k) @ ''V'')\<rparr>"

definition linkOf :: "Collection \<Rightarrow> Collection option \<Rightarrow> bool \<Rightarrow> string \<Rightarrow> link_props" where
  "linkOf c below dragging query =
     \<lparr>collection = c, belowCollection = below, isDraggingAnyCollection = dragging,
      search = query\<rparr>"

definition draggedDocument :: "string \<Rightarrow> drag_item" where
  "draggedDocument cid = \<lparr>item_id = ''doc-1'', item_collectionId = Some cid\<rparr>"

definition draggedCollection :: "Collection \<Rightarrow> drag_item" where
  "draggedCollection c = \<lparr>item_id = col_id c, item_collectionId = None\<rparr>"

definition closedLink :: link where
  "closedLink =
     \<lparr>expanded = True, menuOpen = False, permissionOpen = False, itemRef = None, calls = []\<rparr>"

section \<open>Properties of loadDocument\<close>

lemma revision_loadDocument_finish [simp]:
  "revision (loadDocument_finish env ps p s) = revision s"
  by (simp add: loadDocument_finish_def fetchShares_def Let_def
      split: option.splits sum.splits)

lemma document_loadDocument_finish [simp]:
  "document (loadDocument_finish env ps p s) = document s"
  by (simp add: loadDocument_finish_def fetchShares_def Let_def
      split: option.splits sum.splits)

lemma error_loadDocument_finish [simp]:
  "error (loadDocument_finish env ps p s) = error s"
  by (simp add: loadDocument_finish_def fetchShares_def Let_def
      split: option.splits sum.splits)

lemma sharedTree_loadDocument_finish [simp]:
  "sharedTree (loadDocument_finish env ps p s) = sharedTree s"
  by (simp add: loadDocument_finish_def fetchShares_def Let_def
      split: option.splits sum.splits)

lemma history_fetchShares [simp]: "history (fetchShares env d s) = history s"
  by (simp add: fetchShares_def split: sum.splits)

lemma ui_activeDocument_fetchShares [simp]:
  "ui_activeDocument (fetchShares env d s) = ui_activeDocument s"
  by (simp add: fetchShares_def split: sum.splits)

lemma ui_activeDocument_loadDocument_finish:
  "document s = Some d \<Longrightarrow> ui_activeDocument (loadDocument_finish env ps p s) = Some d"
  by (simp add: loadDocument_finish_def Let_def)

lemma replacements_append [simp]:
  "replacements (xs @ ys) = replacements xs @ replacements ys"
  by (induction xs rule: replacements.induct) auto

lemma pushes_append [simp]: "pushes (xs @ ys) = pushes xs @ pushes ys"
  by (induction xs rule: pushes.induct) auto

text \<open>The one call on \<^verbatim>\<open>history\<close> that the last part of \<^verbatim>\<open>loadDocument\<close> makes, if any.\<close>

lemma history_loadDocument_finish:
  "document s = Some d \<Longrightarrow>
   history (loadDocument_finish env ps p s) =
     history s @
       (if \<not> can_update (policies_abilities env (doc_id d)) \<and> isEditing env p
        then [Push (doc_url d)]
        else if \<not> truthy (revisionId ps) \<and> \<not> isMove p \<and> \<not> truthy (shareId ps)
                \<and> location_pathname p \<noteq> updateDocumentUrl env (match_url p) d
             then [Replace (updateDocumentUrl env (match_url p) d)]
             else [])"
  by (simp add: loadDocument_finish_def Let_def)

lemma history_loadDocument:
  "history (loadDocument env p s) =
     history s @
       (case documents_fetch env (documentSlug (match_params p)) (shareId (match_params p)) of
          Inl e \<Rightarrow> []
        | Inr r \<Rightarrow>
            if wantsRevision (match_params p)
               \<and> isl (revisions_fetch env (revisionId (match_params p)))
            then []
            else if \<not> can_update (policies_abilities env (doc_id (resp_document r)))
                    \<and> isEditing env p
            then [Push (doc_url (resp_document r))]
            else if \<not> truthy (revisionId (match_params p)) \<and> \<not> isMove p
                    \<and> \<not> truthy (shareId (match_params p))
                    \<and> location_pathname p
                        \<noteq> updateDocumentUrl env (match_url p) (resp_document r)
            then [Replace (updateDocumentUrl env (match_url p) (resp_document r))]
            else [])"
  by (simp add: loadDocument_def Let_def loadDocument_start_def storeResponse_def catchError_def
      history_loadDocument_finish split: sum.splits option.splits)

text \<open>
  A call of \<^verbatim>\<open>loadDocument\<close> whose fetch settles before anything else happens to the
  component is the uninterrupted call \<open>loadDocument\<close>.
\<close>

lemma settle_last:
  "settle env (length (inflight c)) r (callLoadDocument c)
     = resume env (AwaitDocument (match_params (props c))) r
         (c\<lparr>self := loadDocument_start (self c)\<rparr>)"
  by (simp add: settle_def callLoadDocument_def nth_append)

lemma loadDocument_uninterrupted:
  assumes "\<not> wantsRevision (match_params (props c))"
  shows "settle env (length (inflight c))
           (case documents_fetch env (documentSlug (match_params (props c)))
                   (shareId (match_params (props c))) of
              Inl e \<Rightarrow> Rejected e
            | Inr r \<Rightarrow> GotDocument r)
           (callLoadDocument c)
         = Some (c\<lparr>self := loadDocument env (props c) (self c)\<rparr>)"
  using assms
  by (simp add: settle_last loadDocument_def Let_def split: sum.splits)

section \<open>Canonical redirect\<close>

text \<open>
  C3, as the code has it. When \<^verbatim>\<open>documents.fetch\<close> has resolved, \<^verbatim>\<open>loadDocument\<close>
  calls \<^verbatim>\<open>history.replace\<close> exactly once, with the canonical address, if the
  editing-mode downgrade does not apply (the user may update the document, or the route
  is not the edit route), the request carries no revision id at all (the sentinel
  \<^verbatim>\<open>"latest"\<close> is a revision id here), the address does not end in \<^verbatim>\<open>move\<close>, there
  is no share id, and the canonical address differs from the current one. In every other
  case it calls \<^verbatim>\<open>history.replace\<close> not at all.
\<close>

theorem canonical_redirect:
  assumes "documents_fetch env (documentSlug (match_params p)) (shareId (match_params p)) = Inr r"
  shows "replacements (history (loadDocument env p s)) =
           replacements (history s) @
             (if (can_update (policies_abilities env (doc_id (resp_document r)))
                  \<or> \<not> isEditing env p)
                 \<and> \<not> truthy (revisionId (match_params p))
                 \<and> \<not> isMove p
                 \<and> \<not> truthy (shareId (match_params p))
                 \<and> location_pathname p \<noteq> updateDocumentUrl env (match_url p) (resp_document r)
              then [updateDocumentUrl env (match_url p) (resp_document r)]
              else [])"
  using assms by (simp add: history_loadDocument wantsRevision_def)

text \<open>The second document on its read route: one replacement, to its canonical address.\<close>

theorem canonical_redirect_witness:
  "documents_fetch demoStores ''doc-b'' None = Inr resp_b
   \<and> replacements (history (loadDocument demoStores (route ''doc-b'') emptyLoader))
       = [''/doc/doc-b-id-b'']"
  using canonical_redirect [of demoStores "route ''doc-b''" resp_b emptyLoader]
  by (simp add: demoStores_def route_def emptyLoader_def resp_b_def doc_b_def
      isEditing_def isMove_def truthy_def suffix_to_prefix)

text \<open>
  The claim as the spec words it fails twice. On the edit route of a document the user
  may not update, the request has no revision id, no share id, is no move and the
  canonical address differs, yet no replacement is made. On the history route with the
  sentinel \<^verbatim>\<open>"latest"\<close>, which is not a specific revision, no replacement is made either.
\<close>

theorem canonical_redirect_counterexample:
  "(documents_fetch demoStores ''doc-a'' None = Inr resp_a
    \<and> revisionId (match_params (editRoute ''doc-a'')) = None
    \<and> shareId (match_params (editRoute ''doc-a'')) = None
    \<and> \<not> isMove (editRoute ''doc-a'')
    \<and> updateDocumentUrl demoStores (match_url (editRoute ''doc-a'')) doc_a
         \<noteq> location_pathname (editRoute ''doc-a'')
    \<and> error (loadDocument demoStores (editRoute ''doc-a'') emptyLoader) = None
    \<and> replacements (history (loadDocument demoStores (editRoute ''doc-a'') emptyLoader)) = [])
   \<and> (documents_fetch demoStores ''doc-b'' None = Inr resp_b
    \<and> revisionId (match_params (historyRoute ''doc-b'' ''latest'')) = Some ''latest''
    \<and> shareId (match_params (historyRoute ''doc-b'' ''latest'')) = None
    \<and> \<not> isMove (historyRoute ''doc-b'' ''latest'')
    \<and> updateDocumentUrl demoStores (match_url (historyRoute ''doc-b'' ''latest'')) doc_b
         \<noteq> location_pathname (historyRoute ''doc-b'' ''latest'')
    \<and> error (loadDocument demoStores (historyRoute ''doc-b'' ''latest'') emptyLoader) = None
    \<and> revision (loadDocument demoStores (historyRoute ''doc-b'' ''latest'') emptyLoader) = None
    \<and> history (loadDocument demoStores (historyRoute ''doc-b'' ''latest'') emptyLoader) = [])"
  by (simp add: loadDocument_def Let_def loadDocument_start_def loadDocument_finish_def
      storeResponse_def wantsRevision_def fetchShares_def
      demoStores_def editRoute_def historyRoute_def emptyLoader_def resp_a_def doc_a_def
      resp_b_def doc_b_def isEditing_def isMove_def truthy_def suffix_to_prefix)

section \<open>Revision reset\<close>

text \<open>
  C10, as the code has it. When the request carries no revision id or the sentinel
  \<^verbatim>\<open>"latest"\<close> and \<^verbatim>\<open>documents.fetch\<close> resolves, \<^verbatim>\<open>loadDocument\<close> leaves the
  component with no revision at that moment, whatever revision it held before: in a
  call that nothing interrupts, and also in the rest of a suspended call. A revision
  fetch that is still in flight is not cancelled: whenever it resolves, its revision is
  stored next to the document and the props the component has then, also after a later
  resolution without a revision.
\<close>

theorem loadDocument_resets_revision:
  assumes "revisionId ps = None \<or> revisionId ps = Some ''latest''"
  shows "(match_params p = ps \<and> documents_fetch env (documentSlug ps) (shareId ps) = Inr r
            \<longrightarrow> revision (loadDocument env p s) = None)
         \<and> (i < length (inflight c) \<and> inflight c ! i = AwaitDocument ps
            \<longrightarrow> (\<exists>c'. settle env i (GotDocument r) c = Some c' \<and> revision (self c') = None))
         \<and> (j < length (inflight c)
             \<and> (inflight c ! j = AwaitRevisionAlone \<or> inflight c ! j = AwaitRevision ps')
            \<longrightarrow> (\<exists>c'. settle env j (GotRevision rv) c = Some c'
                      \<and> revision (self c') = Some rv
                      \<and> props c' = props c
                      \<and> document (self c') = document (self c)))"
  using assms
  by (auto simp add: loadDocument_def settle_def Let_def wantsRevision_def truthy_def)

text \<open>
  A component that holds a revision of an earlier request loses it, on the read route
  and on the history route with \<^verbatim>\<open>"latest"\<close>.
\<close>

theorem loadDocument_resets_revision_witness:
  "revisionId (match_params (route ''doc-a'')) = None
   \<and> documents_fetch demoStores ''doc-a'' None = Inr resp_a
   \<and> revision (emptyLoader\<lparr>revision := Some ''rev-7''\<rparr>) = Some ''rev-7''
   \<and> revision (loadDocument demoStores (route ''doc-a'') (emptyLoader\<lparr>revision := Some ''rev-7''\<rparr>))
       = None
   \<and> revisionId (match_params (historyRoute ''doc-b'' ''latest'')) = Some ''latest''
   \<and> documents_fetch demoStores ''doc-b'' None = Inr resp_b
   \<and> revision (loadDocument demoStores (historyRoute ''doc-b'' ''latest'')
        (emptyLoader\<lparr>revision := Some ''rev-7''\<rparr>))
       = None"
  using loadDocument_resets_revision [of "match_params (route ''doc-a'')" "route ''doc-a''"
      demoStores resp_a "emptyLoader\<lparr>revision := Some ''rev-7''\<rparr>"]
    loadDocument_resets_revision [of "match_params (historyRoute ''doc-b'' ''latest'')"
      "historyRoute ''doc-b'' ''latest''" demoStores resp_b
      "emptyLoader\<lparr>revision := Some ''rev-7''\<rparr>"]
  by (simp add: demoStores_def route_def historyRoute_def emptyLoader_def)

text \<open>
  The revision of the earlier request is exposed next to a later resolution without a
  revision. While the first request waits for its revision, the request for the second
  document (no revision id) resolves and the revision is reset. Then the revision fetch
  of the first request resolves (lines 156--159, 179): the component holds that revision
  together with the second document, under props without a revision id.
\<close>

theorem late_revision_counterexample:
  "map_option inflight revisionInFlight
     = Some [AwaitRevision (match_params (historyRoute ''doc-a'' ''rev-1'')),
             AwaitDocument (match_params (route ''doc-b''))]
   \<and> revisionId (match_params (route ''doc-b'')) = None
   \<and> map_option (revision \<circ> self) laterResolved = Some None
   \<and> map_option (document \<circ> self) laterResolved = Some (Some doc_b)
   \<and> map_option (revision \<circ> self) lateRevision = Some (Some ''rev-1-object'')
   \<and> map_option (document \<circ> self) lateRevision = Some (Some doc_b)
   \<and> map_option (revisionId \<circ> match_params \<circ> props) lateRevision = Some None"
  by (simp add: lateRevision_def laterResolved_def revisionInFlight_def
      receiveProps_def componentDidUpdate_def componentDidMount_def
      callLoadDocument_def callLoadRevision_def loadDocument_start_def Let_def
      settle_def storeResponse_def loadDocument_finish_def fetchShares_def
      demoStores_def route_def historyRoute_def resp_a_def resp_b_def doc_a_def doc_b_def
      wantsRevision_def truthy_def isEditing_def isMove_def suffix_to_prefix)

section \<open>Address changes\<close>

text \<open>
  C4, as the code has it. A call of \<^verbatim>\<open>loadDocument\<close> makes at most one call on
  \<^verbatim>\<open>history\<close>. It is \<^verbatim>\<open>history.push\<close>, with the url of the document, exactly when
  the editing-mode downgrade applies: the fetch (and the revision fetch, if one is made)
  has succeeded, the capability set denies \<^verbatim>\<open>update\<close> and the route is the edit
  route. Every other address change is a replacement.
\<close>

theorem loadDocument_address_changes:
  "\<exists>ops. history (loadDocument env p s) = history s @ ops \<and> length ops \<le> 1
     \<and> (\<forall>u. (Push u \<in> set ops) =
          (\<exists>r. documents_fetch env (documentSlug (match_params p)) (shareId (match_params p)) = Inr r
             \<and> \<not> (wantsRevision (match_params p)
                    \<and> isl (revisions_fetch env (revisionId (match_params p))))
             \<and> \<not> can_update (policies_abilities env (doc_id (resp_document r)))
             \<and> isEditing env p
             \<and> u = doc_url (resp_document r)))"
proof -
  let ?ops = "(case documents_fetch env (documentSlug (match_params p)) (shareId (match_params p)) of
          Inl e \<Rightarrow> []
        | Inr r \<Rightarrow>
            if wantsRevision (match_params p)
               \<and> isl (revisions_fetch env (revisionId (match_params p)))
            then []
            else if \<not> can_update (policies_abilities env (doc_id (resp_document r)))
                    \<and> isEditing env p
            then [Push (doc_url (resp_document r))]
            else if \<not> truthy (revisionId (match_params p)) \<and> \<not> isMove p
                    \<and> \<not> truthy (shareId (match_params p))
                    \<and> location_pathname p
                        \<noteq> updateDocumentUrl env (match_url p) (resp_document r)
            then [Replace (updateDocumentUrl env (match_url p) (resp_document r))]
            else [])"
  have "history (loadDocument env p s) = history s @ ?ops"
    by (rule history_loadDocument)
  moreover have "length ?ops \<le> 1"
    by (simp split: sum.splits)
  moreover have "\<forall>u. (Push u \<in> set ?ops) =
          (\<exists>r. documents_fetch env (documentSlug (match_params p)) (shareId (match_params p)) = Inr r
             \<and> \<not> (wantsRevision (match_params p)
                    \<and> isl (revisions_fetch env (revisionId (match_params p))))
             \<and> \<not> can_update (policies_abilities env (doc_id (resp_document r)))
             \<and> isEditing env p
             \<and> u = doc_url (resp_document r))"
    by (cases "documents_fetch env (documentSlug (match_params p)) (shareId (match_params p))")
       auto
  ultimately show ?thesis by blast
qed

text \<open>
  The edit route of the first document, which the user may not update: one push.
\<close>

theorem loadDocument_address_changes_witness:
  "history (loadDocument demoStores (editRoute ''doc-a'') emptyLoader) = [Push ''/doc/doc-a-id-a'']"
proof -
  from loadDocument_address_changes [of demoStores "editRoute ''doc-a''" emptyLoader]
  obtain ops where h: "history (loadDocument demoStores (editRoute ''doc-a'') emptyLoader)
        = history emptyLoader @ ops"
    and len: "length ops \<le> 1"
    and push: "\<forall>u. (Push u \<in> set ops) =
          (\<exists>r. documents_fetch demoStores (documentSlug (match_params (editRoute ''doc-a'')))
                  (shareId (match_params (editRoute ''doc-a''))) = Inr r
             \<and> \<not> (wantsRevision (match_params (editRoute ''doc-a''))
                    \<and> isl (revisions_fetch demoStores (revisionId (match_params (editRoute ''doc-a'')))))
             \<and> \<not> can_update (policies_abilities demoStores (doc_id (resp_document r)))
             \<and> isEditing demoStores (editRoute ''doc-a'')
             \<and> u = doc_url (resp_document r))"
    by blast
  have "Push ''/doc/doc-a-id-a'' \<in> set ops"
    using push
    by (simp add: demoStores_def editRoute_def resp_a_def doc_a_def wantsRevision_def
        truthy_def isEditing_def)
  with len have "ops = [Push ''/doc/doc-a-id-a'']"
    by (cases ops) auto
  with h show ?thesis by (simp add: emptyLoader_def)
qed

text \<open>
  The editing-mode downgrade is not an address replacement: line 200 calls
  \<^verbatim>\<open>history.push\<close>.
\<close>

theorem downgrade_pushes_counterexample:
  "isEditing demoStores (editRoute ''doc-a'')
   \<and> \<not> can_update (policies_abilities demoStores (doc_id doc_a))
   \<and> document (loadDocument demoStores (editRoute ''doc-a'') emptyLoader) = Some doc_a
   \<and> pushes (history (loadDocument demoStores (editRoute ''doc-a'') emptyLoader))
       = [doc_url doc_a]"
  by (simp add: loadDocument_def Let_def loadDocument_start_def loadDocument_finish_def
      storeResponse_def wantsRevision_def
      demoStores_def editRoute_def emptyLoader_def resp_a_def doc_a_def
      isEditing_def truthy_def)

section \<open>Failures that are not found\<close>

lemma loadDocument_finish_shares:
  "(loadDocument_finish (env\<lparr>shares_fetch := f\<rparr>) ps p s)\<lparr>unhandled := u\<rparr>
     = (loadDocument_finish env ps p s)\<lparr>unhandled := u\<rparr>"
  by (simp add: loadDocument_finish_def fetchShares_def Let_def isEditing_def
      split: option.splits sum.splits)

text \<open>
  C9, as the code has it. In \<^verbatim>\<open>onSearchLink\<close>, a \<open>NotFoundError\<close> of the exact
  lookup falls through to the title search and every other failure of it is the failure
  of \<^verbatim>\<open>onSearchLink\<close>. In \<^verbatim>\<open>loadDocument\<close>, a \<open>NotFoundError\<close> of
  \<^verbatim>\<open>shares.fetch\<close> leaves no trace; every other failure of it is thrown again inside
  the handler of the detached promise and ends as an unhandled rejection. It does not
  reach the caller of \<^verbatim>\<open>loadDocument\<close>: apart from the unhandled rejections, the result
  of \<^verbatim>\<open>loadDocument\<close> is the same whatever \<^verbatim>\<open>shares.fetch\<close> settles with.
\<close>

theorem notFound_is_swallowed:
  "(isInternalUrl env term
      \<and> documents_fetch env (parseDocumentSlug env term) None = Inl NotFoundError
    \<longrightarrow> onSearchLink env term =
          (case documents_searchTitles env term of
             Inl e' \<Rightarrow> Inl e'
           | Inr results \<Rightarrow> Inr (sortBy (rank env term) (map (toResult env) results))))
   \<and> (isInternalUrl env term
      \<and> documents_fetch env (parseDocumentSlug env term) None = Inl e \<and> e \<noteq> NotFoundError
    \<longrightarrow> onSearchLink env term = Inl e)
   \<and> (shares_fetch env (doc_id d) = Inl NotFoundError \<longrightarrow> fetchShares env d s = s)
   \<and> (shares_fetch env (doc_id d) = Inl e \<and> e \<noteq> NotFoundError
    \<longrightarrow> fetchShares env d s = s\<lparr>unhandled := unhandled s @ [e]\<rparr>)
   \<and> (loadDocument (env\<lparr>shares_fetch := f\<rparr>) p s)\<lparr>unhandled := u\<rparr>
       = (loadDocument env p s)\<lparr>unhandled := u\<rparr>"
proof (intro conjI impI)
  show "(loadDocument (env\<lparr>shares_fetch := f\<rparr>) p s)\<lparr>unhandled := u\<rparr>
       = (loadDocument env p s)\<lparr>unhandled := u\<rparr>"
    by (simp add: loadDocument_def Let_def loadDocument_finish_shares catchError_def
        split: sum.splits)
qed (auto simp: onSearchLink_def exactLookup_def fetchShares_def)

text \<open>
  An internal address of no document, an internal address fetched while offline, and
  the share information of the two documents.
\<close>

theorem notFound_is_swallowed_witness:
  "isInternalUrl demoStores ''/doc/missing''
   \<and> documents_fetch demoStores (parseDocumentSlug demoStores ''/doc/missing'') None
       = Inl NotFoundError
   \<and> map sr_title (projr (onSearchLink demoStores ''/doc/missing''))
       = [''Project Plan'', ''Approved Proposal'', ''proactive notes'']
   \<and> documents_fetch demoStores (parseDocumentSlug demoStores ''/doc/doc-x'') None
       = Inl OfflineError
   \<and> onSearchLink demoStores ''/doc/doc-x'' = Inl OfflineError
   \<and> shares_fetch demoStores (doc_id doc_a) = Inl NotFoundError
   \<and> fetchShares demoStores doc_a emptyLoader = emptyLoader
   \<and> shares_fetch demoStores (doc_id doc_b) = Inl OfflineError
   \<and> unhandled (fetchShares demoStores doc_b emptyLoader) = [OfflineError]"
  using notFound_is_swallowed [of demoStores "''/doc/missing''" OfflineError doc_a emptyLoader]
    notFound_is_swallowed [of demoStores "''/doc/doc-x''" OfflineError doc_b emptyLoader]
  by (simp add: demoStores_def doc_a_def doc_b_def emptyLoader_def titled_def toResult_def
      sortBy_def rank_def titleStartsWith_def lower_def)

text \<open>
  The share information of the second document cannot be fetched because the transport
  is offline. \<^verbatim>\<open>loadDocument\<close> completes all the same: no error is stored, the canonical
  redirect is made, and the failure is an unhandled rejection.
\<close>

theorem share_failure_counterexample:
  "shares_fetch demoStores (doc_id doc_b) = Inl OfflineError
   \<and> can_read (policies_abilities demoStores (doc_id doc_b))
   \<and> document (loadDocument demoStores (route ''doc-b'') emptyLoader) = Some doc_b
   \<and> error (loadDocument demoStores (route ''doc-b'') emptyLoader) = None
   \<and> history (loadDocument demoStores (route ''doc-b'') emptyLoader)
       = [Replace ''/doc/doc-b-id-b'']
   \<and> unhandled (loadDocument demoStores (route ''doc-b'') emptyLoader) = [OfflineError]"
  by (simp add: loadDocument_def Let_def loadDocument_start_def loadDocument_finish_def
      storeResponse_def wantsRevision_def fetchShares_def
      demoStores_def route_def emptyLoader_def resp_b_def doc_b_def
      isEditing_def isMove_def truthy_def suffix_to_prefix)

section \<open>Search ranking\<close>

lemma insort_key_least:
  "\<forall>y\<in>set ys. f x \<le> f y \<Longrightarrow> insort_key f x ys = x # ys"
  by (cases ys) auto

lemma insort_key_after:
  "\<forall>y\<in>set xs. f y < f x \<Longrightarrow> insort_key f x (xs @ ys) = xs @ insort_key f x ys"
  by (induction xs) auto

lemma sortBy_rank:
  "sortBy (rank env term) rs =
     filter (titleStartsWith env term) rs @ filter (\<lambda>r. \<not> titleStartsWith env term r) rs"
proof (induction rs)
  case Nil
  show ?case by (simp add: sortBy_def)
next
  case (Cons r rs)
  let ?A = "filter (titleStartsWith env term) rs"
  let ?B = "filter (\<lambda>r. \<not> titleStartsWith env term r) rs"
  have step: "sortBy (rank env term) (r # rs) = insort_key (rank env term) r (?A @ ?B)"
    using Cons.IH by (simp add: sortBy_def)
  show ?case
  proof (cases "titleStartsWith env term r")
    case True
    then have "insort_key (rank env term) r (?A @ ?B) = r # ?A @ ?B"
      by (intro insort_key_least) (auto simp: rank_def)
    with step True show ?thesis by simp
  next
    case False
    then have "insort_key (rank env term) r (?A @ ?B) = ?A @ insort_key (rank env term) r ?B"
      by (intro insort_key_after) (auto simp: rank_def)
    moreover from False have "insort_key (rank env term) r ?B = r # ?B"
      by (intro insort_key_least) (auto simp: rank_def)
    ultimately show ?thesis using step False by simp
  qed
qed

text \<open>
  C8. When \<^verbatim>\<open>onSearchLink\<close> reaches the title search and the search resolves with
  \<open>results\<close>, it returns first the entries whose normalized title starts with the
  normalized term, in the order of \<open>results\<close>, and then all the others, in the order of
  \<open>results\<close>.
\<close>

theorem search_ranking:
  assumes "\<not> isInternalUrl env term
           \<or> documents_fetch env (parseDocumentSlug env term) None = Inl NotFoundError"
    and "documents_searchTitles env term = Inr results"
  shows "onSearchLink env term =
           Inr (filter (titleStartsWith env term) (map (toResult env) results)
                @ filter (\<lambda>r. \<not> titleStartsWith env term r) (map (toResult env) results))"
proof -
  from assms(1) have "exactLookup env term = None"
    by (auto simp: exactLookup_def)
  with assms(2) show ?thesis
    by (simp add: onSearchLink_def sortBy_rank)
qed

text \<open>
  The term \<^verbatim>\<open>pro\<close> and the titles Project Plan, Approved Proposal, proactive notes.
\<close>

theorem search_ranking_witness:
  "\<not> isInternalUrl demoStores ''pro''
   \<and> documents_searchTitles demoStores ''pro''
       = Inr [titled ''Project Plan'', titled ''Approved Proposal'', titled ''proactive notes'']
   \<and> map sr_title (projr (onSearchLink demoStores ''pro''))
       = [''Project Plan'', ''proactive notes'', ''Approved Proposal'']"
  using search_ranking [of demoStores "''pro''"
      "[titled ''Project Plan'', titled ''Approved Proposal'', titled ''proactive notes'']"]
  by (simp add: demoStores_def titled_def toResult_def titleStartsWith_def lower_def)

section \<open>Overlapping requests\<close>

lemma sharedTreeCache_loadDocument_finish [simp]:
  "sharedTreeCache (loadDocument_finish env ps p s) = sharedTreeCache s"
  by (simp add: loadDocument_finish_def fetchShares_def Let_def
      split: option.splits sum.splits)

text \<open>
  C1, as the code has it. The component keeps no identity of its requests. Whenever the
  fetch of a suspended \<^verbatim>\<open>loadDocument\<close> resolves, the rest of that call stores the
  response: the document, its shared tree, the cache entry and, unless a specific
  revision is still to be loaded, the active document are those of the response,
  whatever calls were made since. The state shows the request whose fetch resolved last.
\<close>

theorem settled_fetch_is_stored:
  assumes "i < length (inflight c)" and "inflight c ! i = AwaitDocument ps"
  shows "\<exists>c'. settle env i (GotDocument r) c = Some c'
           \<and> document (self c') = Some (resp_document r)
           \<and> sharedTree (self c') = resp_sharedTree r
           \<and> sharedTreeCache (self c') (doc_id (resp_document r)) = Some (resp_sharedTree r)
           \<and> (\<not> wantsRevision ps \<longrightarrow> ui_activeDocument (self c') = Some (resp_document r))"
  using assms
  by (simp add: settle_def Let_def storeResponse_def ui_activeDocument_loadDocument_finish)

text \<open>
  The first of the two suspended calls of \<open>overlapping\<close> resolves.
\<close>

theorem settled_fetch_is_stored_witness:
  "0 < length (inflight overlapping)
   \<and> inflight overlapping ! 0 = AwaitDocument (match_params (route ''doc-a''))
   \<and> \<not> wantsRevision (match_params (route ''doc-a''))
   \<and> (\<exists>c'. settle demoStores 0 (GotDocument resp_a) overlapping = Some c'
           \<and> document (self c') = Some doc_a
           \<and> ui_activeDocument (self c') = Some doc_a)"
proof -
  have len: "0 < length (inflight overlapping)"
    and first: "inflight overlapping ! 0 = AwaitDocument (match_params (route ''doc-a''))"
    by (simp_all add: overlapping_def receiveProps_def componentDidUpdate_def
        componentDidMount_def callLoadDocument_def callLoadRevision_def loadDocument_start_def
        Let_def demoStores_def route_def truthy_def)
  have norev: "\<not> wantsRevision (match_params (route ''doc-a''))"
    by (simp add: route_def wantsRevision_def truthy_def)
  have doc: "resp_document resp_a = doc_a"
    by (simp add: resp_a_def)
  from settled_fetch_is_stored [OF len first, of demoStores resp_a] norev doc
  have "\<exists>c'. settle demoStores 0 (GotDocument resp_a) overlapping = Some c'
           \<and> document (self c') = Some doc_a
           \<and> ui_activeDocument (self c') = Some doc_a"
    by metis
  with len first norev show ?thesis by blast
qed

text \<open>
  The calls for \<^verbatim>\<open>doc-a\<close> and then for \<^verbatim>\<open>doc-b\<close> are both suspended and the props are
  those of \<^verbatim>\<open>doc-b\<close>. When the fetch of the first call resolves, the document and the
  active document are \<^verbatim>\<open>doc-a\<close>; they are also \<^verbatim>\<open>doc-a\<close> when the fetch of the second
  call has resolved before.
\<close>

theorem stale_response_counterexample:
  "inflight overlapping
     = [AwaitDocument (match_params (route ''doc-a'')), AwaitDocument (match_params (route ''doc-b''))]
   \<and> documentSlug (match_params (props overlapping)) = ''doc-b''
   \<and> map_option (document \<circ> self) (settle demoStores 0 (GotDocument resp_a) overlapping)
       = Some (Some doc_a)
   \<and> map_option (ui_activeDocument \<circ> self) (settle demoStores 0 (GotDocument resp_a) overlapping)
       = Some (Some doc_a)
   \<and> map_option (document \<circ> self)
        (Option.bind (settle demoStores 1 (GotDocument resp_b) overlapping)
           (settle demoStores 0 (GotDocument resp_a)))
       = Some (Some doc_a)
   \<and> map_option (ui_activeDocument \<circ> self)
        (Option.bind (settle demoStores 1 (GotDocument resp_b) overlapping)
           (settle demoStores 0 (GotDocument resp_a)))
       = Some (Some doc_a)
   \<and> doc_a \<noteq> doc_b"
  by (simp add: overlapping_def receiveProps_def componentDidUpdate_def componentDidMount_def
      callLoadDocument_def callLoadRevision_def loadDocument_start_def Let_def
      settle_def storeResponse_def loadDocument_finish_def fetchShares_def
      demoStores_def route_def resp_a_def resp_b_def doc_a_def doc_b_def
      wantsRevision_def truthy_def isEditing_def isMove_def suffix_to_prefix)

section \<open>Unmounting\<close>

text \<open>
  C5, as the code has it. Unmounting cancels nothing: when the promise of a call that
  was suspended at the unmount settles, the rest of the call does exactly what it would
  have done to a mounted component.
\<close>

theorem settle_after_unmount:
  "settle env i r (unmount c) = map_option unmount (settle env i r c)"
  by (cases "inflight c ! i"; cases r) (simp_all add: settle_def unmount_def Let_def)

text \<open>
  The fetch of \<open>abandoned\<close> resolves.
\<close>

theorem settle_after_unmount_witness:
  "settle demoStores 0 (GotDocument resp_b) abandoned
     = map_option unmount
         (settle demoStores 0 (GotDocument resp_b)
            (componentDidMount demoStores (route ''doc-b'') Map.empty))"
  unfolding abandoned_def by (rule settle_after_unmount)

text \<open>
  The component is unmounted while it holds no document. When its fetch resolves, the
  response is stored and the address is replaced.
\<close>

theorem unmounted_fetch_counterexample:
  "\<not> mounted abandoned
   \<and> inflight abandoned = [AwaitDocument (match_params (route ''doc-b''))]
   \<and> document (self abandoned) = None
   \<and> history (self abandoned) = []
   \<and> map_option (document \<circ> self) (settle demoStores 0 (GotDocument resp_b) abandoned)
       = Some (Some doc_b)
   \<and> map_option (history \<circ> self) (settle demoStores 0 (GotDocument resp_b) abandoned)
       = Some [Replace ''/doc/doc-b-id-b'']"
  by (simp add: abandoned_def unmount_def componentDidMount_def
      callLoadDocument_def loadDocument_start_def Let_def
      settle_def storeResponse_def loadDocument_finish_def fetchShares_def
      demoStores_def route_def resp_b_def doc_b_def
      wantsRevision_def truthy_def isEditing_def isMove_def suffix_to_prefix)

section \<open>Properties of CollectionLink\<close>

text \<open>
  C6. The expanded flag of a link starts as true exactly if its collection is the
  active one. The effect leaves the state of the link as it is when the query string is
  \<^verbatim>\<open>?starred\<close>, whether a collection is dragged or not and whichever collection is
  active; otherwise it sets the flag to false while any collection is dragged, for the
  link of every collection, and to "this collection is the active one" while none is.
\<close>

theorem expansion_controller:
  "expanded (initialLink st lp) = (Some (col_id (collection lp)) = ui_activeCollectionId st)
   \<and> (search lp = ''?starred'' \<longrightarrow> expandedEffect st lp l = l)
   \<and> (search lp \<noteq> ''?starred'' \<and> isDraggingAnyCollection lp
        \<longrightarrow> expandedEffect st lp l = l\<lparr>expanded := False\<rparr>)
   \<and> (search lp \<noteq> ''?starred'' \<and> \<not> isDraggingAnyCollection lp
        \<longrightarrow> expandedEffect st lp l
              = l\<lparr>expanded := (Some (col_id (collection lp)) = ui_activeCollectionId st)\<rparr>)"
  by (simp add: initialLink_def expandedEffect_def isActive_def)

text \<open>
  The links of the active collection and of another one, with and without the starred
  query, with and without a drag.
\<close>

theorem expansion_controller_witness:
  "expanded (initialLink demoLinkStores (linkOf readCollection None False []))
   \<and> \<not> expanded (initialLink demoLinkStores (linkOf writeCollection None False []))
   \<and> expandedEffect demoLinkStores (linkOf writeCollection None True ''?starred'') closedLink
       = closedLink
   \<and> expandedEffect demoLinkStores (linkOf writeCollection None False ''?starred'') closedLink
       = closedLink
   \<and> expanded (expandedEffect demoLinkStores (linkOf readCollection None True []) closedLink)
       = False
   \<and> expanded (expandedEffect demoLinkStores (linkOf readCollection None False []) closedLink)
       = True
   \<and> expanded (expandedEffect demoLinkStores (linkOf writeCollection None False []) closedLink)
       = False"
  using expansion_controller [of demoLinkStores "linkOf readCollection None False []" closedLink]
    expansion_controller [of demoLinkStores "linkOf writeCollection None False []" closedLink]
    expansion_controller [of demoLinkStores "linkOf writeCollection None True ''?starred''" closedLink]
    expansion_controller [of demoLinkStores "linkOf writeCollection None False ''?starred''" closedLink]
    expansion_controller [of demoLinkStores "linkOf readCollection None True []" closedLink]
  by (simp add: demoLinkStores_def linkOf_def readCollection_def writeCollection_def)

text \<open>
  C7. A document dropped on the body of the link of its own collection changes nothing
  and moves nothing. A collection released over the target below itself, or over the
  target whose below neighbour it is, is rejected. Every accepted release calls
  \<^verbatim>\<open>collections.move\<close> for the dragged collection with the key that
  \<^verbatim>\<open>fractionalIndex\<close> allocates between the index of the target's collection and the
  index of its below neighbour (null if there is none).
\<close>

theorem self_drops_rejected:
  "(item_collectionId item = Some (col_id (collection lp))
      \<longrightarrow> dropDocument st lp didDrop item l = l)
   \<and> (item_id item = col_id (collection lp)
      \<longrightarrow> \<not> canDropCollection lp item \<and> releaseCollection st lp item l = l)
   \<and> (belowCollection lp = Some b \<and> item_id item = col_id b
      \<longrightarrow> \<not> canDropCollection lp item \<and> releaseCollection st lp item l = l)
   \<and> (canDropCollection lp item
      \<longrightarrow> releaseCollection st lp item l =
            l\<lparr>calls := calls l @
                [CollectionsMove (item_id item)
                   (fractionalIndex st (Some (col_index (collection lp)))
                      (map_option col_index (belowCollection lp)))]\<rparr>)"
  by (auto simp add: dropDocument_def canDropCollection_def releaseCollection_def
      dropToReorderCollection_def belowCollectionIndex_def split: option.splits)

text \<open>
  A document of the collection itself, the collection itself, its below neighbour, and
  a third collection, which is accepted.
\<close>

theorem self_drops_rejected_witness:
  "dropDocument demoLinkStores (linkOf readCollection (Some writeCollection) False []) False
       (draggedDocument ''c-read'') closedLink = closedLink
   \<and> releaseCollection demoLinkStores (linkOf readCollection (Some writeCollection) True [])
       (draggedCollection readCollection) closedLink = closedLink
   \<and> releaseCollection demoLinkStores (linkOf readCollection (Some writeCollection) True [])
       (draggedCollection writeCollection) closedLink = closedLink
   \<and> canDropCollection (linkOf readCollection (Some writeCollection) True [])
       (draggedCollection privateCollection)
   \<and> calls (releaseCollection demoLinkStores (linkOf readCollection (Some writeCollection) True [])
       (draggedCollection privateCollection) closedLink)
       = [CollectionsMove ''c-private'' (fractionalIndex demoLinkStores (Some ''m'') (Some ''t''))]"
  using self_drops_rejected [of "draggedDocument ''c-read''"
      "linkOf readCollection (Some writeCollection) False []" demoLinkStores False closedLink
      writeCollection]
    self_drops_rejected [of "draggedCollection readCollection"
      "linkOf readCollection (Some writeCollection) True []" demoLinkStores False closedLink
      writeCollection]
    self_drops_rejected [of "draggedCollection writeCollection"
      "linkOf readCollection (Some writeCollection) True []" demoLinkStores False closedLink
      writeCollection]
    self_drops_rejected [of "draggedCollection privateCollection"
      "linkOf readCollection (Some writeCollection) True []" demoLinkStores False closedLink
      writeCollection]
  by (simp add: linkOf_def readCollection_def writeCollection_def privateCollection_def
      draggedDocument_def draggedCollection_def canDropCollection_def closedLink_def)

text \<open>
  C2, as the code has it. A document is dropped on the body of a link of another
  collection and no nested target has handled the drop. If the collection the document
  comes from is known, its permission is null and the permission of the target's
  collection is not, the link makes no call on the stores: it keeps the item and opens
  the confirmation for its collection; confirming then moves the document and
  cancelling moves nothing, and both close the confirmation. In every other case the
  document is moved into the collection at once, with no index.
\<close>

theorem drop_confirmation:
  assumes "\<not> didDrop" and "item_collectionId item \<noteq> Some (col_id (collection lp))"
  shows "if (\<exists>cid prev. item_collectionId item = Some cid \<and> collections_get st cid = Some prev
               \<and> col_permission prev = None \<and> col_permission (collection lp) \<noteq> None)
         then dropDocument st lp didDrop item l = l\<lparr>itemRef := Some item, permissionOpen := True\<rparr>
              \<and> confirmReparent lp (dropDocument st lp didDrop item l)
                  = l\<lparr>itemRef := Some item, permissionOpen := False,
                      calls := calls l @ [DocumentsMove (item_id item) (col_id (collection lp)) None]\<rparr>
              \<and> cancelReparent (dropDocument st lp didDrop item l)
                  = l\<lparr>itemRef := Some item, permissionOpen := False\<rparr>
         else dropDocument st lp didDrop item l
                = l\<lparr>calls := calls l @ [DocumentsMove (item_id item) (col_id (collection lp)) None]\<rparr>"
  using assms
  by (auto simp add: dropDocument_def needsConfirmation_def handlePermissionOpen_def
      handlePermissionClose_def confirmReparent_def cancelReparent_def
      split: option.splits)

text \<open>
  From the private collection into the editable one, confirmed and cancelled; and from
  the editable collection into the private one.
\<close>

theorem drop_confirmation_witness:
  "item_collectionId (draggedDocument ''c-private'') \<noteq> Some (col_id writeCollection)
   \<and> dropDocument demoLinkStores (linkOf writeCollection None False []) False
       (draggedDocument ''c-private'') closedLink
       = closedLink\<lparr>itemRef := Some (draggedDocument ''c-private''), permissionOpen := True\<rparr>
   \<and> calls (confirmReparent (linkOf writeCollection None False [])
        (dropDocument demoLinkStores (linkOf writeCollection None False []) False
           (draggedDocument ''c-private'') closedLink))
       = [DocumentsMove ''doc-1'' ''c-write'' None]
   \<and> calls (cancelReparent
        (dropDocument demoLinkStores (linkOf writeCollection None False []) False
           (draggedDocument ''c-private'') closedLink))
       = []
   \<and> calls (dropDocument demoLinkStores (linkOf privateCollection None False []) False
       (draggedDocument ''c-write'') closedLink)
       = [DocumentsMove ''doc-1'' ''c-private'' None]"
  using drop_confirmation [of False "draggedDocument ''c-private''"
      "linkOf writeCollection None False []" demoLinkStores closedLink]
    drop_confirmation [of False "draggedDocument ''c-write''"
      "linkOf privateCollection None False []" demoLinkStores closedLink]
  by (simp add: demoLinkStores_def linkOf_def writeCollection_def privateCollection_def
      draggedDocument_def closedLink_def confirmReparent_def cancelReparent_def
      handlePermissionClose_def)

text \<open>
  From the readable collection into the editable one the scopes differ and the source
  scope is not null, yet the document is moved at once. From the private collection into
  the readable one the source scope is null, yet the confirmation is opened and nothing
  is moved.
\<close>

theorem drop_confirmation_counterexample:
  "(col_permission readCollection \<noteq> col_permission writeCollection
    \<and> col_permission readCollection \<noteq> None
    \<and> collections_get demoLinkStores ''c-read'' = Some readCollection
    \<and> calls (dropDocument demoLinkStores (linkOf writeCollection None False []) False
         (draggedDocument ''c-read'') closedLink)
        = [DocumentsMove ''doc-1'' ''c-write'' None]
    \<and> \<not> permissionOpen (dropDocument demoLinkStores (linkOf writeCollection None False []) False
         (draggedDocument ''c-read'') closedLink))
   \<and> (col_permission privateCollection = None
    \<and> collections_get demoLinkStores ''c-private'' = Some privateCollection
    \<and> calls (dropDocument demoLinkStores (linkOf readCollection None False []) False
         (draggedDocument ''c-private'') closedLink)
        = []
    \<and> permissionOpen (dropDocument demoLinkStores (linkOf readCollection None False []) False
         (draggedDocument ''c-private'') closedLink))"
  by (simp add: dropDocument_def needsConfirmation_def handlePermissionOpen_def
      demoLinkStores_def linkOf_def readCollection_def writeCollection_def privateCollection_def
      draggedDocument_def closedLink_def)

end
